theory Spec2Isabelle
  imports Main "HOL-Library.Multiset"
begin

section \<open>Text primitives of the Python runtime used by \<open>scformatter.py\<close>\<close>

text \<open>
  A Python \<open>str\<close> is modelled as a \<open>string\<close>; a \<open>char\<close> stands for the code point of
  the same number, so the model covers the texts whose code points lie in U+0000..U+00FF.
  The character classes below are those of \<open>str.isspace\<close> and \<open>str.isnumeric\<close> on that
  range.
\<close>

definition isspace :: "char \<Rightarrow> bool" where
  "isspace c \<longleftrightarrow> (of_char c :: nat) \<in> {9, 10, 11, 12, 13, 28, 29, 30, 31, 32, 133, 160}"

definition isdecimal_char :: "char \<Rightarrow> bool" where
  "isdecimal_char c \<longleftrightarrow> 48 \<le> (of_char c :: nat) \<and> (of_char c :: nat) \<le> 57"

definition isnumeric_char :: "char \<Rightarrow> bool" where
  "isnumeric_char c \<longleftrightarrow>
     isdecimal_char c \<or> (of_char c :: nat) \<in> {178, 179, 185, 188, 189, 190}"

text \<open>\<open>s.isnumeric()\<close>: at least one character, and every character numeric.\<close>

definition isnumeric :: "string \<Rightarrow> bool" where
  "isnumeric s \<longleftrightarrow> s \<noteq> [] \<and> list_all isnumeric_char s"

text \<open>A pure decimal numeral string: one or more of the characters 0..9.\<close>

definition is_decimal_numeral :: "string \<Rightarrow> bool" where
  "is_decimal_numeral s \<longleftrightarrow> s \<noteq> [] \<and> list_all isdecimal_char s"

text \<open>\<open>s.strip()\<close>: leading and trailing whitespace removed.\<close>

definition strip :: "string \<Rightarrow> string" where
  "strip s = rev (dropWhile isspace (rev (dropWhile isspace s)))"

text \<open>\<open>str(i)\<close> for an integer \<open>i\<close>.\<close>

fun digits :: "nat \<Rightarrow> string" where
  "digits n = (if n < 10 then [char_of (48 + n)]
               else digits (n div 10) @ [char_of (48 + n mod 10)])"

declare digits.simps [simp del]

definition str_int :: "int \<Rightarrow> string" where
  "str_int i = (if i < 0 then CHR ''-'' # digits (nat (- i)) else digits (nat i))"

text \<open>\<open>re.split('\n|,', val)\<close>: cut at every newline and every comma; the pieces between
  two adjacent delimiters, before a leading one and after a trailing one are empty.\<close>

definition is_delim :: "char \<Rightarrow> bool" where
  "is_delim c \<longleftrightarrow> c = CHR 0x0A \<or> c = CHR '',''"

primrec re_split :: "string \<Rightarrow> string list" where
  "re_split [] = [[]]"
| "re_split (c # cs) =
     (if is_delim c then [] # re_split cs
      else (c # hd (re_split cs)) # tl (re_split cs))"

text \<open>\<open>sep.join(xs)\<close>.\<close>

fun join :: "string \<Rightarrow> string list \<Rightarrow> string" where
  "join sep [] = []"
| "join sep [x] = x"
| "join sep (x # y # ys) = x @ sep @ join sep (y # ys)"

text \<open>\<open>s.replace(pat, rep)\<close>: every non-overlapping occurrence, leftmost first; an empty
  pattern matches before every character and at the end.\<close>

function replace_from :: "string \<Rightarrow> string \<Rightarrow> string \<Rightarrow> string" where
  "replace_from pat rep [] = []"
| "replace_from pat rep (c # cs) =
     (if pat \<noteq> [] \<and> take (length pat) (c # cs) = pat
      then rep @ replace_from pat rep (drop (length pat) (c # cs))
      else c # replace_from pat rep cs)"
  by pat_completeness auto
termination
  by (relation "measure (\<lambda>(pat, rep, s). length s)") (auto simp: neq_Nil_conv)

definition str_replace :: "string \<Rightarrow> string \<Rightarrow> string \<Rightarrow> string" where
  "str_replace pat rep s =
     (if pat = [] then rep @ concat (map (\<lambda>c. c # rep) s) else replace_from pat rep s)"

section \<open>Cells and \<open>safe_strip\<close>\<close>

text \<open>
  A cell value read with \<open>values_only=True\<close>: \<open>None\<close>, a text or an integer number.
  Cells holding a floating-point number, a date or a truth value are outside the model.
\<close>

datatype cell = CNone | CStr string | CInt int

text \<open>
  \<open>return s.strip() if isinstance(s, str) else str(s) if s else ''\<close>: a text is stripped;
  any other value is tested for truth, and \<open>None\<close> and the number zero are false.
\<close>

fun safe_strip :: "cell \<Rightarrow> string" where
  "safe_strip (CStr s) = strip s"
| "safe_strip (CInt i) = (if i \<noteq> 0 then str_int i else [])"
| "safe_strip CNone = []"

text \<open>The truth value of a text in a condition: the empty text is false.\<close>

definition truthy :: "string \<Rightarrow> bool" where
  "truthy s \<longleftrightarrow> s \<noteq> []"

section \<open>Configuration\<close>

text \<open>
  The \<open>configs\<close> dictionary read from the JSON file: \<open>field_items\<close> are its items other
  than \<open>service_replace\<close>, in the order of \<open>configs.items()\<close> (a dictionary, so the keys are
  distinct), each a logical field name with the header text searched for;
  \<open>service_replace\<close> is the value under that key, \<open>None\<close> when the key is absent.
\<close>

record configs =
  field_items :: "(string \<times> string) list"
  service_replace :: "(string \<times> string) list option"

definition REQUIRED_CONFIGS :: "string list" where
  "REQUIRED_CONFIGS = [''SRC'', ''DST'', ''SRV'', ''ADD'', ''RM'']"

datatype error = KeyError string | IndexError | UnboundLocalError | LoadFailure

definition bind_err :: "error + 'a \<Rightarrow> ('a \<Rightarrow> error + 'b) \<Rightarrow> error + 'b" where
  "bind_err r f = (case r of Inl e \<Rightarrow> Inl e | Inr v \<Rightarrow> f v)"

text \<open>\<open>key in configs\<close> and \<open>configs[key]\<close> for a field key.\<close>

definition in_configs :: "configs \<Rightarrow> string \<Rightarrow> bool" where
  "in_configs c k \<longleftrightarrow> map_of (field_items c) k \<noteq> None"

definition cfg_get :: "configs \<Rightarrow> string \<Rightarrow> error + string" where
  "cfg_get c k = (case map_of (field_items c) k of None \<Rightarrow> Inl (KeyError k) | Some h \<Rightarrow> Inr h)"

text \<open>\<open>{val: key for key, val in configs.items() if key not in COMPLEX_CONFIGS}\<close>: a later
  item with the same header text replaces an earlier one.\<close>

definition reverse_configs :: "configs \<Rightarrow> (string \<rightharpoonup> string)" where
  "reverse_configs c = fold (\<lambda>(key, val) m. m(val \<mapsto> key)) (field_items c) Map.empty"

text \<open>\<open>{key: val for key, val in configs.items() if key in REQUIRED_CONFIGS}\<close>.\<close>

definition required_configs :: "configs \<Rightarrow> (string \<times> string) list" where
  "required_configs c = filter (\<lambda>(key, val). key \<in> set REQUIRED_CONFIGS) (field_items c)"

section \<open>Locating the columns of a sheet\<close>

text \<open>
  Lines 188 to 190: the cells of the first two rows, each with its index in its own row,
  row one before row two, every cell passed through \<open>safe_strip\<close>.
\<close>

definition header_scan :: "cell list list \<Rightarrow> (nat \<times> string) list" where
  "header_scan rows = concat (map (\<lambda>row. enumerate 0 (map safe_strip row)) (take 2 rows))"

text \<open>
  Line 191, \<open>{reverse_configs[cell]: idx for idx, cell in rows if cell in reverse_configs}\<close>:
  the comprehension stores one entry per matching cell, in scan order, into one dictionary.
\<close>

definition store_match ::
  "(string \<rightharpoonup> string) \<Rightarrow> nat \<times> string \<Rightarrow> (string \<rightharpoonup> nat) \<Rightarrow> (string \<rightharpoonup> nat)" where
  "store_match rc p m = (case rc (snd p) of None \<Rightarrow> m | Some key \<Rightarrow> m(key \<mapsto> fst p))"

definition locate_columns ::
  "(string \<rightharpoonup> string) \<Rightarrow> (nat \<times> string) list \<Rightarrow> (string \<rightharpoonup> nat)" where
  "locate_columns rc scan = fold (store_match rc) scan Map.empty"

definition sheet_cfgs :: "configs \<Rightarrow> cell list list \<Rightarrow> (string \<rightharpoonup> nat)" where
  "sheet_cfgs c rows = locate_columns (reverse_configs c) (header_scan rows)"

text \<open>Line 192: the sheet is used when all of \<open>REQUIRED_CONFIGS\<close> are keys of \<open>cfgs\<close>.\<close>

definition sheet_valid :: "(string \<rightharpoonup> nat) \<Rightarrow> bool" where
  "sheet_valid cfgs \<longleftrightarrow> list_all (\<lambda>k. cfgs k \<noteq> None) REQUIRED_CONFIGS"

section \<open>One data row (lines 210 to 249)\<close>

record canonical_row =
  src :: string
  dst :: string
  srv :: string
  act :: string
  cmt :: string

text \<open>
  The three ways the body of the row loop ends without an exception: the row is written
  to the output sheet (lines 244 to 249), it is passed over without a message (line 238),
  or it is passed over with the collected messages printed (lines 240 to 241).
\<close>

datatype row_outcome = Accepted canonical_row | Skipped | Rejected "string list"

text \<open>The local variables \<open>error_msg\<close>, \<open>tmp\<close> and \<open>values\<close>; \<open>values\<close> is a
  \<open>defaultdict(str)\<close>, so every entry starts as the empty text.\<close>

record row_state =
  error_msg :: "string list"
  tmp :: "string list"
  vals :: canonical_row

definition init_state :: row_state where
  "init_state = \<lparr>error_msg = [], tmp = [],
     vals = \<lparr>src = [], dst = [], srv = [], act = [], cmt = []\<rparr>\<rparr>"

text \<open>\<open>row[cfgs[key]]\<close>: \<open>KeyError\<close> when \<open>cfgs\<close> has no such key, \<open>IndexError\<close> when the row
  is shorter than the index.\<close>

definition row_cell :: "(string \<rightharpoonup> nat) \<Rightarrow> cell list \<Rightarrow> string \<Rightarrow> error + cell" where
  "row_cell cfgs row k =
     (case cfgs k of
        None \<Rightarrow> Inl (KeyError k)
      | Some i \<Rightarrow> if i < length row then Inr (row ! i) else Inl IndexError)"

definition quoted :: "string \<Rightarrow> string" where
  "quoted h = [CHR 0x27] @ h @ [CHR 0x27]"

definition miss_msg :: "string \<Rightarrow> string" where
  "miss_msg h = ''Miss '' @ quoted h"

definition both_msg :: "string \<Rightarrow> string \<Rightarrow> string" where
  "both_msg a r = ''Have Both ('' @ quoted a @ ''&'' @ quoted r @ '')''"

text \<open>\<open>else: error_msg.append(f"Miss '{configs[key]}'")\<close>.\<close>

definition append_miss :: "configs \<Rightarrow> string \<Rightarrow> row_state \<Rightarrow> error + row_state" where
  "append_miss c k st =
     bind_err (cfg_get c k) (\<lambda>h. Inr (st\<lparr>error_msg := error_msg st @ [miss_msg h]\<rparr>))"

text \<open>Lines 211 to 213 and 214 to 216.\<close>

definition address_list :: "string \<Rightarrow> string" where
  "address_list val = join ''; '' (re_split val)"

definition step_src ::
  "configs \<Rightarrow> (string \<rightharpoonup> nat) \<Rightarrow> cell list \<Rightarrow> row_state \<Rightarrow> error + row_state" where
  "step_src c cfgs row st =
     bind_err (row_cell cfgs row ''SRC'') (\<lambda>x.
       let val = safe_strip x in
       if truthy val then Inr (st\<lparr>vals := (vals st)\<lparr>src := address_list val\<rparr>\<rparr>)
       else append_miss c ''SRC'' st)"

definition step_dst ::
  "configs \<Rightarrow> (string \<rightharpoonup> nat) \<Rightarrow> cell list \<Rightarrow> row_state \<Rightarrow> error + row_state" where
  "step_dst c cfgs row st =
     bind_err (row_cell cfgs row ''DST'') (\<lambda>x.
       let val = safe_strip x in
       if truthy val then Inr (st\<lparr>vals := (vals st)\<lparr>dst := address_list val\<rparr>\<rparr>)
       else append_miss c ''DST'' st)"

text \<open>Lines 218 to 220: the fragments, the empty ones left out, a numeric one prefixed.\<close>

definition tag_service :: "string \<Rightarrow> string" where
  "tag_service frag = (if isnumeric frag then ''TCP '' @ frag else frag)"

definition service_list :: "string \<Rightarrow> string" where
  "service_list val = join ''; '' (map tag_service (filter truthy (re_split val)))"

text \<open>Lines 221 to 222: the replacements, in the order of the dictionary's items.\<close>

definition apply_replacements :: "(string \<times> string) list \<Rightarrow> string \<Rightarrow> string" where
  "apply_replacements rules s = fold (\<lambda>(pattern, replacement). str_replace pattern replacement) rules s"

definition step_srv ::
  "configs \<Rightarrow> (string \<rightharpoonup> nat) \<Rightarrow> cell list \<Rightarrow> row_state \<Rightarrow> error + row_state" where
  "step_srv c cfgs row st =
     bind_err (row_cell cfgs row ''SRV'') (\<lambda>x.
       let val = safe_strip x in
       if truthy val then
         (case service_replace c of
            None \<Rightarrow> Inl (KeyError ''service_replace'')
          | Some rules \<Rightarrow>
              Inr (st\<lparr>vals := (vals st)\<lparr>srv := apply_replacements rules (service_list val)\<rparr>\<rparr>))
       else append_miss c ''SRV'' st)"

text \<open>Lines 224 to 231.\<close>

definition step_act ::
  "configs \<Rightarrow> (string \<rightharpoonup> nat) \<Rightarrow> cell list \<Rightarrow> row_state \<Rightarrow> error + row_state" where
  "step_act c cfgs row st =
     bind_err (row_cell cfgs row ''ADD'') (\<lambda>a.
     bind_err (row_cell cfgs row ''RM'') (\<lambda>r.
       let add_true = safe_strip a; rm_true = safe_strip r in
       if truthy add_true \<and> truthy rm_true then
         bind_err (cfg_get c ''ADD'') (\<lambda>ha.
         bind_err (cfg_get c ''RM'') (\<lambda>hr.
           Inr (st\<lparr>error_msg := error_msg st @ [both_msg ha hr]\<rparr>)))
       else if truthy add_true \<or> truthy rm_true then
         Inr (st\<lparr>vals := (vals st)\<lparr>act := (if truthy add_true then ''accept'' else ''remove'')\<rparr>\<rparr>)
       else Inr (st\<lparr>vals := (vals st)\<lparr>act := []\<rparr>\<rparr>)))"

text \<open>Lines 232 to 236.\<close>

definition append_tmp ::
  "(string \<rightharpoonup> nat) \<Rightarrow> cell list \<Rightarrow> string \<Rightarrow> row_state \<Rightarrow> error + row_state" where
  "append_tmp cfgs row k st =
     bind_err (row_cell cfgs row k) (\<lambda>x.
       let val = safe_strip x in
       Inr (if truthy val then st\<lparr>tmp := tmp st @ [val]\<rparr> else st))"

definition step_cmt ::
  "(string \<rightharpoonup> nat) \<Rightarrow> cell list \<Rightarrow> row_state \<Rightarrow> error + row_state" where
  "step_cmt cfgs row st =
     bind_err (append_tmp cfgs row ''USG'' st) (\<lambda>st1.
     bind_err (append_tmp cfgs row ''CMT'' st1) (\<lambda>st2.
       Inr (st2\<lparr>vals := (vals st2)\<lparr>cmt := join ''|'' (tmp st2)\<rparr>\<rparr>)))"

text \<open>Lines 237 to 249.\<close>

definition decide :: "row_state \<Rightarrow> row_outcome" where
  "decide st =
     (if error_msg st \<noteq> [] \<and> length (error_msg st) = 3 then Skipped
      else if error_msg st \<noteq> [] then Rejected (error_msg st)
      else Accepted (vals st))"

definition normalize_row ::
  "configs \<Rightarrow> (string \<rightharpoonup> nat) \<Rightarrow> cell list \<Rightarrow> error + row_outcome" where
  "normalize_row c cfgs row =
     bind_err (step_src c cfgs row init_state) (\<lambda>st1.
     bind_err (step_dst c cfgs row st1) (\<lambda>st2.
     bind_err (step_srv c cfgs row st2) (\<lambda>st3.
     bind_err (step_act c cfgs row st3) (\<lambda>st4.
     bind_err (step_cmt cfgs row st4) (\<lambda>st5.
       Inr (decide st5))))))"

section \<open>Sheets, files and the whole run (\<open>convert_excels\<close>)\<close>

text \<open>
  What the run prints, one constructor per \<open>print\<close> of \<open>convert_excels\<close>: line 167 (the
  collected messages, joined into one text), line 181 (the base name of the file), line
  195 (sheet name and the header texts of the missing fields), line 198, line 240 (row
  number and messages), line 251. Line 193 takes the missing fields from a set, whose
  order of iteration Python leaves open, so the header texts of line 195 are kept as a
  multiset.
\<close>

datatype event =
    ValidationError "string list"
  | ProcessingFile string
  | SheetSkipped string "string multiset"
  | SheetMeet string
  | RowSkipped nat "string list"
  | FileError string

text \<open>
  The workbook reader is a parameter of the model: \<open>load_workbook\<close> gives the sheets of a
  file, each a name with its rows, or raises \<open>InvalidFileException\<close> or another exception.
\<close>

datatype load_result =
    Workbook "(string \<times> cell list list) list"
  | InvalidFileException string
  | OtherException

text \<open>
  The state of the run: the prints so far, the files \<open>load_workbook\<close> was called on, the
  sheets of the output workbook, and whether the variable \<open>input_workbook\<close> is bound.
\<close>

record run_state =
  printed :: "event list"
  opened :: "string list"
  out_sheets :: "canonical_row list list"
  bound_wb :: bool

definition emit :: "event \<Rightarrow> run_state \<Rightarrow> run_state" where
  "emit ev st = st\<lparr>printed := printed st @ [ev]\<rparr>"

text \<open>Lines 244 to 249: the row goes to the sheet created last.\<close>

definition write_row :: "canonical_row \<Rightarrow> run_state \<Rightarrow> run_state" where
  "write_row r st =
     st\<lparr>out_sheets := butlast (out_sheets st) @ [last (out_sheets st) @ [r]]\<rparr>"

text \<open>The row loop of line 208; an exception leaves it with the state reached.\<close>

fun process_rows ::
  "configs \<Rightarrow> (string \<rightharpoonup> nat) \<Rightarrow> nat \<Rightarrow> cell list list \<Rightarrow> run_state
     \<Rightarrow> (error \<times> run_state) + run_state" where
  "process_rows c cfgs input_row_idx [] st = Inr st"
| "process_rows c cfgs input_row_idx (row # rows) st =
     (case normalize_row c cfgs row of
        Inl e \<Rightarrow> Inl (e, st)
      | Inr Skipped \<Rightarrow> process_rows c cfgs (Suc input_row_idx) rows st
      | Inr (Rejected msgs) \<Rightarrow>
          process_rows c cfgs (Suc input_row_idx) rows (emit (RowSkipped input_row_idx msgs) st)
      | Inr (Accepted r) \<Rightarrow>
          process_rows c cfgs (Suc input_row_idx) rows (write_row r st))"

text \<open>Line 194, \<open>[required_configs[key] for key in miss]\<close>. After the check of line 160
  every required key has a header text; a lookup that fails is kept as \<open>KeyError\<close>.\<close>

fun required_headers :: "configs \<Rightarrow> string list \<Rightarrow> error + string list" where
  "required_headers c [] = Inr []"
| "required_headers c (key # keys) =
     (case map_of (required_configs c) key of
        None \<Rightarrow> Inl (KeyError key)
      | Some h \<Rightarrow> bind_err (required_headers c keys) (\<lambda>hs. Inr (h # hs)))"

text \<open>Lines 187 to 249; the data rows start at row two of the sheet.\<close>

definition process_sheet ::
  "configs \<Rightarrow> string \<times> cell list list \<Rightarrow> run_state \<Rightarrow> (error \<times> run_state) + run_state" where
  "process_sheet c sheet st =
     (let cfgs = sheet_cfgs c (snd sheet) in
      if \<not> sheet_valid cfgs then
        (case required_headers c (filter (\<lambda>k. cfgs k = None) REQUIRED_CONFIGS) of
           Inl e \<Rightarrow> Inl (e, st)
         | Inr miss_configs \<Rightarrow> Inr (emit (SheetSkipped (fst sheet) (mset miss_configs)) st))
      else
        process_rows c cfgs 2 (drop 1 (snd sheet))
          ((emit (SheetMeet (fst sheet)) st)\<lparr>out_sheets := out_sheets st @ [[]]\<rparr>))"

fun process_sheets ::
  "configs \<Rightarrow> (string \<times> cell list list) list \<Rightarrow> run_state \<Rightarrow> (error \<times> run_state) + run_state" where
  "process_sheets c [] st = Inr st"
| "process_sheets c (sheet # sheets) st =
     (case process_sheet c sheet st of
        Inl r \<Rightarrow> Inl r
      | Inr st' \<Rightarrow> process_sheets c sheets st')"

text \<open>\<open>os.path.basename\<close> as on a POSIX system: the text after the last slash.\<close>

definition basename :: "string \<Rightarrow> string" where
  "basename file_path = rev (takeWhile (\<lambda>ch. ch \<noteq> CHR ''/'') (rev file_path))"

text \<open>
  Lines 180 to 255 for one file. \<open>InvalidFileException\<close> is caught and printed; every other
  exception passes through. The \<open>finally\<close> clause closes \<open>input_workbook\<close>, which is not
  bound when no file has been loaded so far.
\<close>

definition process_file ::
  "configs \<Rightarrow> (string \<Rightarrow> load_result) \<Rightarrow> string \<Rightarrow> run_state
     \<Rightarrow> (error \<times> run_state) + run_state" where
  "process_file c load file_path st0 =
     (let st = (emit (ProcessingFile (basename file_path)) st0)\<lparr>opened := opened st0 @ [file_path]\<rparr> in
      case load file_path of
        Workbook sheets \<Rightarrow> process_sheets c sheets (st\<lparr>bound_wb := True\<rparr>)
      | InvalidFileException msg \<Rightarrow>
          (if bound_wb st then Inr (emit (FileError msg) st)
           else Inl (UnboundLocalError, emit (FileError msg) st))
      | OtherException \<Rightarrow>
          (if bound_wb st then Inl (LoadFailure, st) else Inl (UnboundLocalError, st)))"

fun process_files ::
  "configs \<Rightarrow> (string \<Rightarrow> load_result) \<Rightarrow> string list \<Rightarrow> run_state
     \<Rightarrow> (error \<times> run_state) + run_state" where
  "process_files c load [] st = Inr st"
| "process_files c load (file_path # inputs) st =
     (case process_file c load file_path st of
        Inl r \<Rightarrow> Inl r
      | Inr st' \<Rightarrow> process_files c load inputs st')"

text \<open>Lines 158 to 168.\<close>

definition configs_error :: string where
  "configs_error = ''ERROR: configs is not correct. SRC, DST, SRV are required.''"

definition inputs_error :: string where
  "inputs_error = ''ERROR: No Excel files found in the given path.''"

definition output_error :: string where
  "output_error = ''ERROR: output file is Empty''"

definition validate :: "configs \<Rightarrow> string list \<Rightarrow> string option \<Rightarrow> string list" where
  "validate c inputs output =
     (if \<not> list_all (in_configs c) REQUIRED_CONFIGS then [configs_error] else []) @
     (if inputs = [] then [inputs_error] else []) @
     (if output = None \<or> output = Some [] then [output_error] else [])"

text \<open>
  The result of a run: the prints, the files opened, the workbook saved at line 256 (its
  path and sheets), and the exception that ended the run, if any. Line 176 removes the
  only sheet of the new workbook, and \<open>save\<close> raises \<open>IndexError\<close> and writes nothing for
  a workbook without sheets: that is the case when no sheet of the inputs was valid.
\<close>

record run_result =
  prints :: "event list"
  files_opened :: "string list"
  saved :: "(string \<times> canonical_row list list) option"
  raised :: "error option"

definition convert_excels ::
  "configs \<Rightarrow> (string \<Rightarrow> load_result) \<Rightarrow> string list \<Rightarrow> string option \<Rightarrow> run_result" where
  "convert_excels c load inputs output =
     (let error_msg = validate c inputs output in
      if error_msg \<noteq> [] then
        \<lparr>prints = [ValidationError error_msg], files_opened = [], saved = None, raised = None\<rparr>
      else
        (case process_files c load inputs
                \<lparr>printed = [], opened = [], out_sheets = [], bound_wb = False\<rparr> of
           Inl (e, st) \<Rightarrow>
             \<lparr>prints = printed st, files_opened = opened st, saved = None, raised = Some e\<rparr>
         | Inr st \<Rightarrow>
             (if out_sheets st = [] then
                \<lparr>prints = printed st, files_opened = opened st, saved = None,
                 raised = Some IndexError\<rparr>
              else
                \<lparr>prints = printed st, files_opened = opened st,
                 saved = Some (case output of None \<Rightarrow> [] | Some path \<Rightarrow> path, out_sheets st),
                 raised = None\<rparr>)))"

section \<open>Notions used in the statements, and sample data\<close>

text \<open>The cells of the header scan whose text is the configured header of a field, in
  scan order.\<close>

definition header_matches :: "configs \<Rightarrow> string \<Rightarrow> cell list list \<Rightarrow> (nat \<times> string) list" where
  "header_matches c key rows =
     filter (\<lambda>p. reverse_configs c (snd p) = Some key) (header_scan rows)"

text \<open>The comment column of an output row, from the usage cell and the comment cell.\<close>

definition comment_of :: "cell \<Rightarrow> cell \<Rightarrow> string" where
  "comment_of u m = join ''|'' (filter truthy [safe_strip u, safe_strip m])"

text \<open>What a character of an address cell becomes in the joined text when the fragments
  are used as they are: a delimiter becomes the separator, any other character itself.\<close>

definition joined_char :: "char \<Rightarrow> string" where
  "joined_char ch = (if is_delim ch then ''; '' else [ch])"

text \<open>A configuration with all seven fields and one replacement rule.\<close>

definition sample_configs :: configs where
  "sample_configs =
     \<lparr>field_items = [(''SRC'', ''Source''), (''DST'', ''Destination''), (''SRV'', ''Service''),
        (''ADD'', ''Add''), (''RM'', ''Remove''), (''USG'', ''Usage''), (''CMT'', ''Comment'')],
      service_replace = Some [(''TCP 53'', ''DNS'')]\<rparr>"

text \<open>The same configuration without the key \<open>RM\<close>.\<close>

definition incomplete_configs :: configs where
  "incomplete_configs =
     \<lparr>field_items = [(''SRC'', ''Source''), (''DST'', ''Destination''), (''SRV'', ''Service''),
        (''ADD'', ''Add''), (''USG'', ''Usage''), (''CMT'', ''Comment'')],
      service_replace = Some [(''TCP 53'', ''DNS'')]\<rparr>"

definition headers_required :: "cell list" where
  "headers_required =
     [CStr ''Source'', CStr ''Destination'', CStr ''Service'', CStr ''Add'', CStr ''Remove'']"

definition headers_all :: "cell list" where
  "headers_all =
     [CStr ''Source'', CStr ''Destination'', CStr ''Service'', CStr ''Add'', CStr ''Remove'',
      CStr ''Usage'', CStr ''Comment'']"

text \<open>The columns found in a sheet whose second row holds the five required headers at
  indices 0 to 4, and in a sheet whose first row holds all seven headers.\<close>

definition required_columns :: "string \<rightharpoonup> nat" where
  "required_columns = sheet_cfgs sample_configs [[], headers_required]"

definition all_columns :: "string \<rightharpoonup> nat" where
  "all_columns = sheet_cfgs sample_configs [headers_all]"

text \<open>Header rows in which the text \<open>Source\<close> stands at index 0 of row one and at index 1
  of row two.\<close>

definition repeated_headers :: "cell list list" where
  "repeated_headers =
     [[CStr ''Source'', CStr ''Destination''], [CStr ''Destination'', CStr ''Source'']]"

definition no_workbooks :: "string \<Rightarrow> load_result" where
  "no_workbooks file_path = InvalidFileException ''not a workbook''"

section \<open>Auxiliary facts\<close>

lemmas row_steps = normalize_row_def step_src_def step_dst_def step_srv_def step_act_def
  step_cmt_def append_tmp_def append_miss_def bind_err_def init_state_def decide_def Let_def

lemma re_split_not_Nil: "re_split s \<noteq> []"
  by (induction s) auto

lemma concat_re_split: "concat (re_split s) = filter (\<lambda>c. \<not> is_delim c) s"
proof (induction s)
  case Nil
  show ?case by simp
next
  case (Cons c cs)
  have "concat (hd (re_split cs) # tl (re_split cs)) = concat (re_split cs)"
    using re_split_not_Nil [of cs] by simp
  with Cons show ?case by simp
qed

lemma join_Cons: "xs \<noteq> [] \<Longrightarrow> join sep (x # xs) = x @ sep @ join sep xs"
  by (cases xs) auto

lemma join_re_split_Cons:
  "join sep (re_split (c # cs)) =
     (if is_delim c then sep @ join sep (re_split cs) else c # join sep (re_split cs))"
proof (cases "re_split cs")
  case Nil
  with re_split_not_Nil [of cs] show ?thesis by simp
next
  case (Cons f fs)
  then show ?thesis by (cases fs) (auto simp: join_Cons re_split_not_Nil)
qed

lemma address_list_chars: "address_list val = concat (map joined_char val)"
proof (induction val)
  case Nil
  show ?case by (simp add: address_list_def)
next
  case (Cons c cs)
  then show ?case
    unfolding address_list_def by (simp only: join_re_split_Cons) (simp add: joined_char_def)
qed

lemma space_not_numeric: "isspace ch \<Longrightarrow> \<not> isnumeric_char ch"
  by (auto simp: isspace_def isnumeric_char_def isdecimal_char_def)

lemma tag_service_space: "ch \<in> set frag \<Longrightarrow> isspace ch \<Longrightarrow> tag_service frag = frag"
  using space_not_numeric [of ch]
  by (auto simp: tag_service_def isnumeric_def list_all_iff)

lemma decimal_numeral_isnumeric: "is_decimal_numeral s \<Longrightarrow> isnumeric s"
  by (auto simp: is_decimal_numeral_def isnumeric_def isnumeric_char_def list_all_iff)

lemma bind_err_raises: "(\<And>v. \<exists>e. f v = Inl e) \<Longrightarrow> \<exists>e. bind_err r f = Inl e"
  by (cases r) (auto simp: bind_err_def)

lemma step_cmt_raises:
  assumes "cfgs ''USG'' = None \<or> cfgs ''CMT'' = None"
  shows "\<exists>e. step_cmt cfgs row st = Inl e"
  using assms
  by (auto simp: step_cmt_def append_tmp_def bind_err_def row_cell_def Let_def
      split: sum.splits option.splits)

lemma store_match_apply:
  "store_match rc q m key = (if rc (snd q) = Some key then Some (fst q) else m key)"
  by (simp add: store_match_def split: option.splits)

lemma fold_store_match:
  "fold (store_match rc) scan m key =
     (case filter (\<lambda>p. rc (snd p) = Some key) scan of
        [] \<Rightarrow> m key
      | p # ps \<Rightarrow> Some (fst (last (p # ps))))"
proof (induction scan arbitrary: m)
  case Nil
  show ?case by simp
next
  case (Cons q scan)
  have "fold (store_match rc) (q # scan) m key =
      fold (store_match rc) scan (store_match rc q m) key"
    by simp
  also have "\<dots> = (case filter (\<lambda>p. rc (snd p) = Some key) scan of
        [] \<Rightarrow> store_match rc q m key
      | p # ps \<Rightarrow> Some (fst (last (p # ps))))"
    by (rule Cons.IH)
  also have "\<dots> = (case filter (\<lambda>p. rc (snd p) = Some key) (q # scan) of
        [] \<Rightarrow> m key
      | p # ps \<Rightarrow> Some (fst (last (p # ps))))"
    by (simp add: store_match_apply split: list.splits)
  finally show ?case .
qed

text \<open>
  Where every column read by the row loop is found and \<open>service_replace\<close> is configured, a
  row with source, destination and service filled in and at most one flag set is written
  to the output.
\<close>

lemma accepted_when_all_columns_resolved:
  assumes "row_cell cfgs row ''SRC'' = Inr s" "truthy (safe_strip s)"
    and "row_cell cfgs row ''DST'' = Inr d" "truthy (safe_strip d)"
    and "row_cell cfgs row ''SRV'' = Inr v" "truthy (safe_strip v)"
    and "row_cell cfgs row ''ADD'' = Inr a" "row_cell cfgs row ''RM'' = Inr r"
    and "\<not> (truthy (safe_strip a) \<and> truthy (safe_strip r))"
    and "row_cell cfgs row ''USG'' = Inr u" "row_cell cfgs row ''CMT'' = Inr m"
    and "service_replace c = Some rules"
  shows "normalize_row c cfgs row =
     Inr (Accepted \<lparr>src = address_list (safe_strip s), dst = address_list (safe_strip d),
        srv = apply_replacements rules (service_list (safe_strip v)),
        act = (if truthy (safe_strip a) then ''accept''
               else if truthy (safe_strip r) then ''remove'' else []),
        cmt = comment_of u m\<rparr>)"
  using assms by (simp add: row_steps comment_of_def)

section \<open>The claims\<close>

text \<open>
  C1 (the code fails the claim). The claim: in a sheet whose headers give the five
  required fields and no usage or comment header, every data row is normalized without
  failure. The code: \<open>cfgs\<close> is a plain dictionary, lines 232 and 234 read
  \<open>cfgs["USG"]\<close> and \<open>cfgs["CMT"]\<close> for every row, and so every row of such a sheet ends
  in an exception, whatever its cells hold.
\<close>

theorem optional_columns_absent_raises:
  assumes "cfgs ''USG'' = None \<or> cfgs ''CMT'' = None"
  shows "\<exists>e. normalize_row c cfgs row = Inl e"
proof -
  have last: "\<exists>e. bind_err (step_cmt cfgs row st) (\<lambda>st5. Inr (decide st5)) = Inl e" for st
    using step_cmt_raises [OF assms, of row st] by (auto simp: bind_err_def)
  show ?thesis
    unfolding normalize_row_def
    apply (rule bind_err_raises)
    apply (rule bind_err_raises)
    apply (rule bind_err_raises)
    apply (rule bind_err_raises)
    apply (rule last)
    done
qed

theorem optional_columns_absent_raises_witness:
  "sheet_valid required_columns \<and> required_columns ''USG'' = None \<and>
   (\<exists>e. normalize_row sample_configs required_columns
      [CStr ''10.0.0.9'', CStr ''10.0.0.5'', CStr ''22'', CNone, CStr ''yes''] = Inl e)"
proof -
  have valid: "sheet_valid required_columns"
    by code_simp
  have absent: "required_columns ''USG'' = None"
    by code_simp
  from absent have "required_columns ''USG'' = None \<or> required_columns ''CMT'' = None" ..
  from optional_columns_absent_raises [OF this] valid absent show ?thesis
    by blast
qed

text \<open>
  C2 (amended). The claim as written, that a row whose source, destination and service
  cells are all empty is passed over silently whatever the flags hold, fails when both
  flags are set. What the code does, where all seven columns are found within the row:
  such a row is passed over silently exactly when at most one flag is set, whatever the
  usage and comment cells hold; with both flags set it is reported with four messages.
\<close>

theorem blank_core_outcome:
  assumes "row_cell cfgs row ''SRC'' = Inr s" "\<not> truthy (safe_strip s)"
    and "row_cell cfgs row ''DST'' = Inr d" "\<not> truthy (safe_strip d)"
    and "row_cell cfgs row ''SRV'' = Inr v" "\<not> truthy (safe_strip v)"
    and "row_cell cfgs row ''ADD'' = Inr a" "row_cell cfgs row ''RM'' = Inr r"
    and "row_cell cfgs row ''USG'' = Inr u" "row_cell cfgs row ''CMT'' = Inr m"
    and "cfg_get c ''SRC'' = Inr h_src" "cfg_get c ''DST'' = Inr h_dst"
    and "cfg_get c ''SRV'' = Inr h_srv" "cfg_get c ''ADD'' = Inr h_add"
    and "cfg_get c ''RM'' = Inr h_rm"
  shows "normalize_row c cfgs row =
     Inr (if truthy (safe_strip a) \<and> truthy (safe_strip r)
          then Rejected [miss_msg h_src, miss_msg h_dst, miss_msg h_srv, both_msg h_add h_rm]
          else Skipped)"
  using assms by (simp add: row_steps)

theorem blank_core_outcome_witness:
  "normalize_row sample_configs all_columns
     [CNone, CStr '' '', CStr [], CStr ''yes'', CNone, CStr ''lab access'', CInt 7]
   = Inr Skipped"
proof -
  let ?row = "[CNone, CStr '' '', CStr [], CStr ''yes'', CNone, CStr ''lab access'', CInt 7]"
  have cells: "row_cell all_columns ?row ''SRC'' = Inr CNone"
    "row_cell all_columns ?row ''DST'' = Inr (CStr '' '')"
    "row_cell all_columns ?row ''SRV'' = Inr (CStr [])"
    "row_cell all_columns ?row ''ADD'' = Inr (CStr ''yes'')"
    "row_cell all_columns ?row ''RM'' = Inr CNone"
    "row_cell all_columns ?row ''USG'' = Inr (CStr ''lab access'')"
    "row_cell all_columns ?row ''CMT'' = Inr (CInt 7)"
    by code_simp+
  have blank: "\<not> truthy (safe_strip CNone)" "\<not> truthy (safe_strip (CStr '' ''))"
    "\<not> truthy (safe_strip (CStr []))"
    by code_simp+
  have headers: "cfg_get sample_configs ''SRC'' = Inr ''Source''"
    "cfg_get sample_configs ''DST'' = Inr ''Destination''"
    "cfg_get sample_configs ''SRV'' = Inr ''Service''"
    "cfg_get sample_configs ''ADD'' = Inr ''Add''"
    "cfg_get sample_configs ''RM'' = Inr ''Remove''"
    by code_simp+
  have "normalize_row sample_configs all_columns ?row =
     Inr (if truthy (safe_strip (CStr ''yes'')) \<and> truthy (safe_strip CNone)
          then Rejected [miss_msg ''Source'', miss_msg ''Destination'', miss_msg ''Service'',
                 both_msg ''Add'' ''Remove'']
          else Skipped)"
    by (rule blank_core_outcome [OF cells(1) blank(1) cells(2) blank(2) cells(3) blank(3)
          cells(4) cells(5) cells(6) cells(7) headers])
  then show ?thesis
    using blank(1) by simp
qed

theorem blank_core_both_flags_counterexample:
  "\<not> truthy (safe_strip CNone) \<and>
   truthy (safe_strip (CStr ''yes'')) \<and> truthy (safe_strip (CStr ''x'')) \<and>
   normalize_row sample_configs all_columns
     [CNone, CNone, CNone, CStr ''yes'', CStr ''x'', CNone, CNone]
   = Inr (Rejected [miss_msg ''Source'', miss_msg ''Destination'', miss_msg ''Service'',
            both_msg ''Add'' ''Remove''])"
  by code_simp

text \<open>
  C3 (the code fails the claim). The claim: a row with both flags set is reported with
  the message of the two flags, whatever the other cells hold. The code passes a row over
  silently when it has collected exactly three messages (line 237, meant for the empty
  line); two missing core fields and the message of the two flags are three messages, so
  such a row is dropped without a report.
\<close>

theorem both_flags_two_blank_skipped:
  "truthy (safe_strip (CStr ''yes'')) \<and> truthy (safe_strip (CStr ''x'')) \<and>
   normalize_row sample_configs all_columns
     [CNone, CNone, CStr ''80'', CStr ''yes'', CStr ''x'', CNone, CNone]
   = Inr Skipped"
  by code_simp

text \<open>
  C4 (amended). The claim as written, that the first matching cell fixes the column of a
  field, fails: the dictionary comprehension of line 191 stores every match and a later
  one replaces an earlier one. What the code does: a field found in the header scan (row
  one, then row two) is bound to the index of the last matching cell, and a field with no
  matching cell is not bound.
\<close>

theorem last_match_wins:
  "sheet_cfgs c rows key =
     (case header_matches c key rows of
        [] \<Rightarrow> None
      | p # ps \<Rightarrow> Some (fst (last (p # ps))))"
  by (simp add: sheet_cfgs_def locate_columns_def header_matches_def fold_store_match)

theorem first_match_counterexample:
  "map fst (header_matches sample_configs ''SRC'' repeated_headers) = [0, 1] \<and>
   sheet_cfgs sample_configs repeated_headers ''SRC'' = Some 1"
  by code_simp

text \<open>
  C5 (the code fails the claim). The claim: the source and destination values are the
  fragments of the cell with the empty ones discarded, joined by \<open>"; "\<close>. The code joins
  all fragments of \<open>re.split\<close> for source and destination (lines 212 and 215); only the
  service path (line 219) leaves the empty fragments out.
\<close>

theorem source_keeps_empty_fragments:
  "normalize_row sample_configs all_columns
     [CStr ''a,,b'', CStr ''10.0.0.5,'', CStr ''80,,443'', CStr ''yes'', CNone, CNone, CNone]
   = Inr (Accepted \<lparr>src = ''a; ; b'', dst = ''10.0.0.5; '', srv = ''TCP 80; TCP 443'',
            act = ''accept'', cmt = []\<rparr>)"
  by code_simp

text \<open>
  C6 (amended). The claim as written fails in its second half: \<open>str.isnumeric\<close> accepts
  more than the digits 0 to 9, for one the character U+00BD (the fraction one half), so a
  fragment with a character that is no digit can still be prefixed. What the code does: a
  fragment that is a pure decimal numeral string becomes \<open>"TCP "\<close> followed by it, and so
  does every other non-empty fragment made of characters that \<open>str.isnumeric\<close> accepts; a
  fragment holding any character that \<open>str.isnumeric\<close> does not accept is left as it is.
\<close>

theorem tag_service_numeric:
  "(isnumeric frag \<longrightarrow> tag_service frag = ''TCP '' @ frag) \<and>
   (is_decimal_numeral frag \<longrightarrow> tag_service frag = ''TCP '' @ frag) \<and>
   ((\<exists>ch \<in> set frag. \<not> isnumeric_char ch) \<longrightarrow> tag_service frag = frag)"
  using decimal_numeral_isnumeric [of frag]
  by (auto simp: tag_service_def isnumeric_def list_all_iff)

theorem tag_service_numeric_witness:
  "is_decimal_numeral ''443'' \<and> tag_service ''443'' = ''TCP 443'' \<and>
   (\<exists>ch \<in> set ''8080/udp''. \<not> isnumeric_char ch) \<and> tag_service ''8080/udp'' = ''8080/udp'' \<and>
   isnumeric [CHR 0xB2] \<and> tag_service [CHR 0xB2] = ''TCP '' @ [CHR 0xB2]"
proof -
  have numeral: "is_decimal_numeral ''443''"
    by code_simp
  have other: "\<exists>ch \<in> set ''8080/udp''. \<not> isnumeric_char ch"
    by code_simp
  have superscript: "isnumeric [CHR 0xB2]"
    by code_simp
  from tag_service_numeric [of "''443''"] numeral
  have "tag_service ''443'' = ''TCP 443''" by simp
  moreover from tag_service_numeric [of "''8080/udp''"] other
  have "tag_service ''8080/udp'' = ''8080/udp''" by blast
  moreover from tag_service_numeric [of "[CHR 0xB2]"] superscript
  have "tag_service [CHR 0xB2] = ''TCP '' @ [CHR 0xB2]" by blast
  ultimately show ?thesis
    using numeral other superscript by blast
qed

theorem numeric_non_digit_counterexample:
  "(\<exists>ch \<in> set [CHR 0xBD]. \<not> isdecimal_char ch) \<and>
   tag_service [CHR 0xBD] = ''TCP '' @ [CHR 0xBD] \<and>
   service_list (''80,'' @ [CHR 0xBD]) = ''TCP 80; TCP '' @ [CHR 0xBD]"
  by code_simp

text \<open>
  C7 (the code fails the claim). The claim: a row with source, destination and service
  filled in and at most one flag set is accepted. On the sheet of the scenario (the five
  required headers in row two, no usage or comment header) the row of the scenario ends
  in \<open>KeyError\<close> at line 232 instead; the defect is the one of C1. Where all the columns
  are found the claim holds (\<open>accepted_when_all_columns_resolved\<close>).
\<close>

theorem scenario_row_raises:
  "truthy (safe_strip (CStr (''10.0.0.1'' @ [CHR 0x0A] @ ''10.0.0.2''))) \<and>
   truthy (safe_strip (CStr ''10.0.0.5'')) \<and> truthy (safe_strip (CStr ''80,443'')) \<and>
   truthy (safe_strip (CStr ''yes'')) \<and> \<not> truthy (safe_strip (CStr [])) \<and>
   sheet_valid required_columns \<and>
   normalize_row sample_configs required_columns
     [CStr (''10.0.0.1'' @ [CHR 0x0A] @ ''10.0.0.2''), CStr ''10.0.0.5'', CStr ''80,443'',
      CStr ''yes'', CStr []]
   = Inl (KeyError ''USG'')"
  by code_simp

text \<open>
  C8 (the code fails the claim). The claim: a cell that is not a text is turned into its
  display text, and only empty content gives the empty text, so the number 0 gives
  \<open>"0"\<close>. The code tests the value for truth before \<open>str\<close> (line 139), and the number
  zero is false: it gives the empty text, unlike every other number.
\<close>

theorem safe_strip_zero_is_empty:
  "safe_strip (CInt 0) = [] \<and> str_int 0 = ''0'' \<and> safe_strip (CInt 80) = ''80''"
  by code_simp

text \<open>
  C9. If one of the five required keys is missing from the configuration, the run prints
  its validation messages once, the configuration error first among them and there only
  once, opens no input file, saves no output and ends without an exception.
\<close>

theorem missing_required_config_aborts:
  assumes "key \<in> set REQUIRED_CONFIGS" "\<not> in_configs c key"
  shows "convert_excels c load inputs output =
      \<lparr>prints = [ValidationError (validate c inputs output)], files_opened = [],
        saved = None, raised = None\<rparr>
    \<and> hd (validate c inputs output) = configs_error
    \<and> count_list (validate c inputs output) configs_error = 1"
proof -
  have miss: "\<not> list_all (in_configs c) REQUIRED_CONFIGS"
    using assms by (auto simp: list_all_iff)
  have v: "validate c inputs output = configs_error #
      (if inputs = [] then [inputs_error] else []) @
      (if output = None \<or> output = Some [] then [output_error] else [])"
    using miss by (simp add: validate_def)
  have ne: "inputs_error \<noteq> configs_error" "output_error \<noteq> configs_error"
    by (simp_all add: inputs_error_def configs_error_def output_error_def)
  show ?thesis
    using ne by (simp add: convert_excels_def v Let_def)
qed

theorem missing_required_config_aborts_witness:
  "convert_excels incomplete_configs no_workbooks [''requests.xlsx''] (Some ''out.xlsx'') =
      \<lparr>prints = [ValidationError [configs_error]], files_opened = [],
        saved = None, raised = None\<rparr>"
proof -
  have required: "''RM'' \<in> set REQUIRED_CONFIGS"
    by code_simp
  have missing: "\<not> in_configs incomplete_configs ''RM''"
    by code_simp
  have "validate incomplete_configs [''requests.xlsx''] (Some ''out.xlsx'') = [configs_error]"
    by code_simp
  with missing_required_config_aborts [OF required missing, of no_workbooks
      "[''requests.xlsx'']" "Some ''out.xlsx''"]
  show ?thesis by simp
qed

text \<open>
  C10. The fragments of a cell are not trimmed. For every source or destination cell the
  joined text is the cell text with each delimiter replaced by \<open>"; "\<close> and every other
  character, whitespace included, left in place; for every service cell the joined text
  is made of the non-empty fragments of \<open>re.split\<close> as they are, a fragment holding a
  whitespace character getting no prefix; and a row that is accepted carries exactly these
  texts. For the service cell \<open>"80, 443"\<close> the second fragment is \<open>" 443"\<close>, which is not
  numeric and gets no prefix, and the space stands in the joined text.
\<close>

theorem fragments_not_trimmed:
  "address_list val = concat (map joined_char val) \<and>
   service_list val = join ''; '' (map tag_service (filter truthy (re_split val))) \<and>
   concat (re_split val) = filter (\<lambda>ch. \<not> is_delim ch) val \<and>
   (ch \<in> set frag \<and> isspace ch \<longrightarrow> tag_service frag = frag) \<and>
   (row_cell cfgs row ''SRC'' = Inr s \<and> truthy (safe_strip s) \<and>
    row_cell cfgs row ''DST'' = Inr d \<and> truthy (safe_strip d) \<and>
    row_cell cfgs row ''SRV'' = Inr v \<and> truthy (safe_strip v) \<and>
    row_cell cfgs row ''ADD'' = Inr a \<and> row_cell cfgs row ''RM'' = Inr r \<and>
    \<not> (truthy (safe_strip a) \<and> truthy (safe_strip r)) \<and>
    row_cell cfgs row ''USG'' = Inr u \<and> row_cell cfgs row ''CMT'' = Inr m \<and>
    service_replace c = Some rules \<longrightarrow>
    normalize_row c cfgs row =
      Inr (Accepted \<lparr>src = concat (map joined_char (safe_strip s)),
         dst = concat (map joined_char (safe_strip d)),
         srv = apply_replacements rules
                 (join ''; '' (map tag_service (filter truthy (re_split (safe_strip v))))),
         act = (if truthy (safe_strip a) then ''accept''
                else if truthy (safe_strip r) then ''remove'' else []),
         cmt = comment_of u m\<rparr>)) \<and>
   re_split ''80, 443'' = [''80'', '' 443''] \<and>
   \<not> isnumeric '' 443'' \<and> tag_service '' 443'' = '' 443'' \<and>
   service_list ''80, 443'' = ''TCP 80;  443'' \<and>
   normalize_row sample_configs all_columns
     [CStr ''10.0.0.1, 10.0.0.2'', CStr ''10.0.0.5 ,10.0.0.6'', CStr ''80, 443'',
      CNone, CNone, CNone, CNone]
   = Inr (Accepted \<lparr>src = ''10.0.0.1;  10.0.0.2'', dst = ''10.0.0.5 ; 10.0.0.6'',
            srv = ''TCP 80;  443'', act = [], cmt = []\<rparr>)"
proof -
  have "address_list val = concat (map joined_char val)"
    by (rule address_list_chars)
  moreover have "service_list val = join ''; '' (map tag_service (filter truthy (re_split val)))"
    by (simp add: service_list_def)
  moreover have "concat (re_split val) = filter (\<lambda>ch. \<not> is_delim ch) val"
    by (rule concat_re_split)
  moreover have "ch \<in> set frag \<and> isspace ch \<longrightarrow> tag_service frag = frag"
    using tag_service_space [of ch frag] by blast
  moreover have "row_cell cfgs row ''SRC'' = Inr s \<and> truthy (safe_strip s) \<and>
    row_cell cfgs row ''DST'' = Inr d \<and> truthy (safe_strip d) \<and>
    row_cell cfgs row ''SRV'' = Inr v \<and> truthy (safe_strip v) \<and>
    row_cell cfgs row ''ADD'' = Inr a \<and> row_cell cfgs row ''RM'' = Inr r \<and>
    \<not> (truthy (safe_strip a) \<and> truthy (safe_strip r)) \<and>
    row_cell cfgs row ''USG'' = Inr u \<and> row_cell cfgs row ''CMT'' = Inr m \<and>
    service_replace c = Some rules \<longrightarrow>
    normalize_row c cfgs row =
      Inr (Accepted \<lparr>src = concat (map joined_char (safe_strip s)),
         dst = concat (map joined_char (safe_strip d)),
         srv = apply_replacements rules
                 (join ''; '' (map tag_service (filter truthy (re_split (safe_strip v))))),
         act = (if truthy (safe_strip a) then ''accept''
                else if truthy (safe_strip r) then ''remove'' else []),
         cmt = comment_of u m\<rparr>)"
  proof
    assume h: "row_cell cfgs row ''SRC'' = Inr s \<and> truthy (safe_strip s) \<and>
      row_cell cfgs row ''DST'' = Inr d \<and> truthy (safe_strip d) \<and>
      row_cell cfgs row ''SRV'' = Inr v \<and> truthy (safe_strip v) \<and>
      row_cell cfgs row ''ADD'' = Inr a \<and> row_cell cfgs row ''RM'' = Inr r \<and>
      \<not> (truthy (safe_strip a) \<and> truthy (safe_strip r)) \<and>
      row_cell cfgs row ''USG'' = Inr u \<and> row_cell cfgs row ''CMT'' = Inr m \<and>
      service_replace c = Some rules"
    have "normalize_row c cfgs row =
      Inr (Accepted \<lparr>src = address_list (safe_strip s), dst = address_list (safe_strip d),
        srv = apply_replacements rules (service_list (safe_strip v)),
        act = (if truthy (safe_strip a) then ''accept''
               else if truthy (safe_strip r) then ''remove'' else []),
        cmt = comment_of u m\<rparr>)"
      by (rule accepted_when_all_columns_resolved) (use h in blast)+
    then show "normalize_row c cfgs row =
      Inr (Accepted \<lparr>src = concat (map joined_char (safe_strip s)),
         dst = concat (map joined_char (safe_strip d)),
         srv = apply_replacements rules
                 (join ''; '' (map tag_service (filter truthy (re_split (safe_strip v))))),
         act = (if truthy (safe_strip a) then ''accept''
                else if truthy (safe_strip r) then ''remove'' else []),
         cmt = comment_of u m\<rparr>)"
      by (simp only: address_list_chars service_list_def)
  qed
  moreover have "re_split ''80, 443'' = [''80'', '' 443'']"
    by code_simp
  moreover have "\<not> isnumeric '' 443''"
    by code_simp
  moreover have "tag_service '' 443'' = '' 443''"
    by code_simp
  moreover have "service_list ''80, 443'' = ''TCP 80;  443''"
    by code_simp
  moreover have "normalize_row sample_configs all_columns
     [CStr ''10.0.0.1, 10.0.0.2'', CStr ''10.0.0.5 ,10.0.0.6'', CStr ''80, 443'',
      CNone, CNone, CNone, CNone]
   = Inr (Accepted \<lparr>src = ''10.0.0.1;  10.0.0.2'', dst = ''10.0.0.5 ; 10.0.0.6'',
            srv = ''TCP 80;  443'', act = [], cmt = []\<rparr>)"
    by code_simp
  ultimately show ?thesis
    by (intro conjI)
qed

theorem fragments_not_trimmed_witness:
  "normalize_row sample_configs all_columns
     [CStr (''a'' @ [CHR 0x09] @ '',b''), CStr (''10.0.0.5,'' @ [CHR 0x0D] @ ''10.0.0.6''),
      CStr ''80, 443'', CStr ''yes'', CNone, CNone, CStr ''ticket 7'']
   = Inr (Accepted \<lparr>src = ''a'' @ [CHR 0x09] @ ''; b'',
            dst = ''10.0.0.5; '' @ [CHR 0x0D] @ ''10.0.0.6'',
            srv = ''TCP 80;  443'', act = ''accept'', cmt = ''ticket 7''\<rparr>) \<and>
   tag_service '' 443'' = '' 443''"
proof -
  let ?s = "CStr (''a'' @ [CHR 0x09] @ '',b'')"
  let ?d = "CStr (''10.0.0.5,'' @ [CHR 0x0D] @ ''10.0.0.6'')"
  let ?v = "CStr ''80, 443''"
  let ?row = "[?s, ?d, ?v, CStr ''yes'', CNone, CNone, CStr ''ticket 7'']"
  have cells: "row_cell all_columns ?row ''SRC'' = Inr ?s"
    "row_cell all_columns ?row ''DST'' = Inr ?d"
    "row_cell all_columns ?row ''SRV'' = Inr ?v"
    "row_cell all_columns ?row ''ADD'' = Inr (CStr ''yes'')"
    "row_cell all_columns ?row ''RM'' = Inr CNone"
    "row_cell all_columns ?row ''USG'' = Inr CNone"
    "row_cell all_columns ?row ''CMT'' = Inr (CStr ''ticket 7'')"
    by code_simp+
  have filled: "truthy (safe_strip ?s)" "truthy (safe_strip ?d)" "truthy (safe_strip ?v)"
    by code_simp+
  have flags: "\<not> (truthy (safe_strip (CStr ''yes'')) \<and> truthy (safe_strip CNone))"
    by code_simp
  have rules: "service_replace sample_configs = Some [(''TCP 53'', ''DNS'')]"
    by code_simp
  have texts: "concat (map joined_char (safe_strip ?s)) = ''a'' @ [CHR 0x09] @ ''; b''"
    "concat (map joined_char (safe_strip ?d)) = ''10.0.0.5; '' @ [CHR 0x0D] @ ''10.0.0.6''"
    "apply_replacements [(''TCP 53'', ''DNS'')]
       (join ''; '' (map tag_service (filter truthy (re_split (safe_strip ?v))))) = ''TCP 80;  443''"
    "(if truthy (safe_strip (CStr ''yes'')) then ''accept''
      else if truthy (safe_strip CNone) then ''remove'' else []) = ''accept''"
    "comment_of CNone (CStr ''ticket 7'') = ''ticket 7''"
    by code_simp+
  have space: "CHR '' '' \<in> set '' 443'' \<and> isspace (CHR '' '')"
    by code_simp
  note inst = fragments_not_trimmed [where ch = "CHR '' ''" and frag = "'' 443''"
      and cfgs = all_columns and row = ?row and s = ?s and d = ?d and v = ?v
      and a = "CStr ''yes''" and r = CNone and u = CNone and m = "CStr ''ticket 7''"
      and c = sample_configs and rules = "[(''TCP 53'', ''DNS'')]" and val = "[]"]
  from inst space have "tag_service '' 443'' = '' 443''"
    by blast
  moreover from inst cells filled flags rules
  have "normalize_row sample_configs all_columns ?row =
      Inr (Accepted \<lparr>src = concat (map joined_char (safe_strip ?s)),
         dst = concat (map joined_char (safe_strip ?d)),
         srv = apply_replacements [(''TCP 53'', ''DNS'')]
                 (join ''; '' (map tag_service (filter truthy (re_split (safe_strip ?v))))),
         act = (if truthy (safe_strip (CStr ''yes'')) then ''accept''
                else if truthy (safe_strip CNone) then ''remove'' else []),
         cmt = comment_of CNone (CStr ''ticket 7'')\<rparr>)"
    by blast
  ultimately show ?thesis
    by (simp only: texts simp_thms)
qed

end
